theory Spec2Isabelle
  imports Main "HOL-Library.Word" "HOL-Library.AList" "HOL-Library.Signed_Division"
    "HOL-Library.Multiset"
begin

section \<open>The loading cache of cache.go\<close>

text \<open>
  A shallow embedding of the single-shard engine \<open>genericCache\<close>, of the router
  \<open>shardedCache\<close> and of the constructor \<open>New\<close>. The embedding is sequential: one
  operation runs at a time, as under the engine's write lock.

  \<^item> \<open>time.Time\<close> and \<open>time.Duration\<close> are integers (nanoseconds). The clock is the
    external \<open>clock.Clock\<close>; the reading of \<open>g.Clock.Now()\<close> is the argument \<open>now\<close> of
    each operation and is the same for every reading inside one call, as with the mock
    clock of the library.
  \<^item> The Go map \<open>data\<close> is an association list; \<open>map_of\<close> looks a key up,
    \<open>AList.update\<close> stores and \<open>AList.delete\<close> deletes. The order of the list stands
    for the order in which \<open>range\<close> yields the keys, which Go leaves unspecified.
  \<^item> A removal listener is an opaque callback. It is represented by the list of the
    notifications it has been called with so far, oldest first; \<open>RemovalListeners\<close> is the
    list of these, one per registered listener.
  \<^item> The loader is a function from the key to an error or a value.
  \<^item> The goroutine that \<open>New\<close> starts for a positive \<open>BackgroundEvictFrequency\<close> calls
    \<open>backgroundEvict\<close> at every tick; here \<open>backgroundEvict\<close> is an operation like the
    others.
\<close>

subsection \<open>Data\<close>

type_synonym time = int
type_synonym duration = int

datatype RemovalReason =
  RemovalReasonExplicit | RemovalReasonReplaced | RemovalReasonExpired | RemovalReasonSize

record ('k, 'v) RemovalNotification =
  Key :: 'k
  Value :: 'v
  Reason :: RemovalReason

type_synonym ('k, 'v) RemovalListener = "('k, 'v) RemovalNotification list"

text \<open>
  Errors. \<open>Wrap\<close> and \<open>Wrapf\<close> are the wrappers of \<open>github.com/pkg/errors\<close>: they keep
  the wrapped error as the cause and add a message; \<open>Wrapf\<close> here carries the key that
  the format \<open>"failed to load key %v"\<close> prints. \<open>LoaderError\<close> is an error returned by
  the loader.
\<close>

datatype ('k, 'e) error =
  ErrKeyNotFound
  | LoaderError 'e
  | Wrap "('k, 'e) error" string
  | Wrapf "('k, 'e) error" string 'k

fun Cause :: "('k, 'e) error \<Rightarrow> ('k, 'e) error" where
  "Cause (Wrap err msg) = Cause err"
| "Cause (Wrapf err msg k) = Cause err"
| "Cause err = err"

text \<open>\<open>errors.Wrap(err, "")\<close> on the error of a result pair: a nil error stays nil.\<close>

definition errors_Wrap :: "('k, 'e) error + 'v \<Rightarrow> string \<Rightarrow> ('k, 'e) error + 'v" where
  "errors_Wrap r msg = (case r of Inl err \<Rightarrow> Inl (Wrap err msg) | Inr val \<Rightarrow> Inr val)"

text \<open>
  Modelled from the spec: the type \<open>InternalStats\<close> of the package \<open>internal/stats\<close> is
  not among the sources. The spec describes it as counters for hits, misses, evictions,
  load successes, load errors and the cumulative load duration.
\<close>

record InternalStats =
  hits :: nat
  misses :: nat
  evictions :: nat
  loadSuccesses :: nat
  loadErrors :: nat
  loadTime :: int

definition emptyStats :: InternalStats where
  "emptyStats = \<lparr>hits = 0, misses = 0, evictions = 0, loadSuccesses = 0, loadErrors = 0,
     loadTime = 0\<rparr>"

text \<open>
  Modelled from the spec: the methods \<open>Hit\<close>, \<open>Miss\<close>, \<open>Eviction\<close>, \<open>LoadSuccess\<close>,
  \<open>LoadError\<close> and \<open>LoadTime\<close> of \<open>InternalStats\<close>, which the engine calls, are not
  among the sources. By the spec each increments its counter; \<open>LoadTime\<close> adds the
  duration of a load to the cumulative load duration.
\<close>

definition Hit :: "InternalStats \<Rightarrow> InternalStats" where
  "Hit s = s\<lparr>hits := hits s + 1\<rparr>"

definition Miss :: "InternalStats \<Rightarrow> InternalStats" where
  "Miss s = s\<lparr>misses := misses s + 1\<rparr>"

definition Eviction :: "InternalStats \<Rightarrow> InternalStats" where
  "Eviction s = s\<lparr>evictions := evictions s + 1\<rparr>"

definition LoadSuccess :: "InternalStats \<Rightarrow> InternalStats" where
  "LoadSuccess s = s\<lparr>loadSuccesses := loadSuccesses s + 1\<rparr>"

definition LoadError :: "InternalStats \<Rightarrow> InternalStats" where
  "LoadError s = s\<lparr>loadErrors := loadErrors s + 1\<rparr>"

definition LoadTime :: "InternalStats \<Rightarrow> duration \<Rightarrow> InternalStats" where
  "LoadTime s d = s\<lparr>loadTime := loadTime s + d\<rparr>"

record ('k, 'v, 'e) CacheOptions =
  ExpireAfterWrite :: duration
  ExpireAfterRead :: duration
  Load :: "('k \<Rightarrow> 'e + 'v) option"
  MaxSize :: "32 word"
  RemovalListeners :: "('k, 'v) RemovalListener list"
  ShardCount :: int
  HashCodeFunc :: "('k \<Rightarrow> int) option"
  BackgroundEvictFrequency :: duration

definition expiresAfterRead :: "('k, 'v, 'e, 'm) CacheOptions_scheme \<Rightarrow> bool" where
  "expiresAfterRead c \<longleftrightarrow> ExpireAfterRead c > 0"

definition expiresAfterWrite :: "('k, 'v, 'e, 'm) CacheOptions_scheme \<Rightarrow> bool" where
  "expiresAfterWrite c \<longleftrightarrow> ExpireAfterWrite c > 0"

record ('k, 'v) cacheEntry =
  key :: 'k
  value' :: 'v
  lastRead :: time
  lastWrite :: time

text \<open>
  \<open>genericCache\<close> embeds \<open>CacheOptions\<close>, so it is an extension of that record. The
  lock, the \<open>done\<close> channel and the wait group have no sequential content.
\<close>

record ('k, 'v, 'e) genericCache = "('k, 'v, 'e) CacheOptions" +
  data :: "('k \<times> ('k, 'v) cacheEntry) list"
  stats :: InternalStats

subsection \<open>The single-shard engine\<close>

definition isExpired ::
  "('k, 'v, 'e) genericCache \<Rightarrow> ('k, 'v) cacheEntry \<Rightarrow> time \<Rightarrow> bool" where
  "isExpired g entry now =
     (if expiresAfterRead g \<and> lastRead entry + ExpireAfterRead g < now then True
      else if expiresAfterWrite g \<and> lastWrite entry + ExpireAfterWrite g < now then True
      else False)"

definition evict ::
  "('k, 'v, 'e) genericCache \<Rightarrow> 'k \<Rightarrow> RemovalReason \<Rightarrow> ('k, 'v, 'e) genericCache" where
  "evict g k reason =
     (case map_of (data g) k of
        None \<Rightarrow> g
      | Some val \<Rightarrow>
          let g1 = g\<lparr>stats := Eviction (stats g), data := AList.delete k (data g)\<rparr> in
          if length (RemovalListeners g1) = 0 then g1
          else
            let notification = \<lparr>Key = k, Value = value' val, Reason = reason\<rparr> in
            g1\<lparr>RemovalListeners :=
                 map (\<lambda>listener. listener @ [notification]) (RemovalListeners g1)\<rparr>)"

definition concurrentEvict ::
  "('k, 'v, 'e) genericCache \<Rightarrow> 'k \<Rightarrow> RemovalReason \<Rightarrow> ('k, 'v, 'e) genericCache" where
  "concurrentEvict g k reason = evict g k reason"

text \<open>
  \<open>int32(len(g.data)) >= g.MaxSize\<close> compares signed 32-bit integers; the conversion of
  the length keeps its low 32 bits. The loop over \<open>g.data\<close> stops after its first key.
\<close>

definition internalPut ::
  "('k, 'v, 'e) genericCache \<Rightarrow> 'k \<Rightarrow> 'v \<Rightarrow> time \<Rightarrow> ('k, 'v, 'e) genericCache" where
  "internalPut g k v now =
     (let g1 =
        (if 0 <s MaxSize g \<and> MaxSize g \<le>s word_of_nat (length (data g))
         then (case map fst (data g) of
                 [] \<Rightarrow> g
               | toEvict # _ \<Rightarrow> evict g toEvict RemovalReasonSize)
         else g)
      in g1\<lparr>data := AList.update k
                \<lparr>key = k, value' = v, lastRead = now, lastWrite = now\<rparr> (data g1)\<rparr>)"

text \<open>
  The loader does not advance the clock of the model, so the measured load time is
  \<open>now - now\<close>.
\<close>

definition load ::
  "('k, 'v, 'e) genericCache \<Rightarrow> 'k \<Rightarrow> time \<Rightarrow>
     (('k, 'e) error + 'v) \<times> ('k, 'v, 'e) genericCache" where
  "load g k now =
     (case map_of (data g) k of
        Some entry \<Rightarrow> (Inr (value' entry), g\<lparr>stats := Hit (stats g)\<rparr>)
      | None \<Rightarrow>
         (case Load g of
            None \<Rightarrow> (Inl (Wrap ErrKeyNotFound []), g\<lparr>stats := Miss (stats g)\<rparr>)
          | Some f \<Rightarrow>
             (let loadStartTime = now in
              case f k of
                Inl err \<Rightarrow>
                  (Inl (Wrapf (LoaderError err) ''failed to load key %v'' k),
                   g\<lparr>stats := LoadError (stats g)\<rparr>)
              | Inr val \<Rightarrow>
                  (Inr val,
                   internalPut
                     (g\<lparr>stats := LoadSuccess (LoadTime (stats g) (now - loadStartTime))\<rparr>)
                     k val now))))"

definition Get ::
  "('k, 'v, 'e) genericCache \<Rightarrow> 'k \<Rightarrow> time \<Rightarrow>
     (('k, 'e) error + 'v) \<times> ('k, 'v, 'e) genericCache" where
  "Get g k now =
     (case map_of (data g) k of
        None \<Rightarrow> (let (val, g') = load g k now in (errors_Wrap val [], g'))
      | Some entry \<Rightarrow>
         (let toReturn = value' entry in
          if isExpired g entry now
          then (let (val, g') = load (concurrentEvict g k RemovalReasonExpired) k now
                in (errors_Wrap val [], g'))
          else (Inr toReturn,
                g\<lparr>data := AList.update k (entry\<lparr>lastRead := now\<rparr>) (data g),
                  stats := Hit (stats g)\<rparr>)))"

text \<open>
  The scans of \<open>backgroundEvict\<close> and \<open>preWriteCleanup\<close>: \<open>range\<close> yields the keys that
  are in the map when the loop starts and skips a key deleted before it is reached.
\<close>

definition backgroundEvict ::
  "('k, 'v, 'e) genericCache \<Rightarrow> time \<Rightarrow> ('k, 'v, 'e) genericCache" where
  "backgroundEvict g now =
     foldl (\<lambda>g k. case map_of (data g) k of
                     None \<Rightarrow> g
                   | Some entry \<Rightarrow>
                       if isExpired g entry now then evict g (key entry) RemovalReasonExpired
                       else g)
       g (map fst (data g))"

definition preWriteCleanup ::
  "('k, 'v, 'e) genericCache \<Rightarrow> time \<Rightarrow> ('k, 'v, 'e) genericCache" where
  "preWriteCleanup g now =
     (if BackgroundEvictFrequency g > 0 then g
      else foldl (\<lambda>g k. case map_of (data g) k of
                           None \<Rightarrow> g
                         | Some entry \<Rightarrow>
                             if isExpired g entry now then evict g k RemovalReasonExpired
                             else g)
             g (map fst (data g)))"

definition Put ::
  "('k, 'v, 'e) genericCache \<Rightarrow> 'k \<Rightarrow> 'v \<Rightarrow> time \<Rightarrow> ('k, 'v, 'e) genericCache" where
  "Put g k v now =
     (let g1 = preWriteCleanup g now;
          g2 = (case map_of (data g1) k of
                  Some _ \<Rightarrow> evict g1 k RemovalReasonReplaced
                | None \<Rightarrow> g1)
      in internalPut g2 k v now)"

definition Invalidate ::
  "('k, 'v, 'e) genericCache \<Rightarrow> 'k \<Rightarrow> 'k list \<Rightarrow> ('k, 'v, 'e) genericCache" where
  "Invalidate g k ks =
     foldl (\<lambda>g k. g\<lparr>data := AList.delete k (data g)\<rparr>)
       (g\<lparr>data := AList.delete k (data g)\<rparr>) ks"

definition InvalidateAll :: "('k, 'v, 'e) genericCache \<Rightarrow> ('k, 'v, 'e) genericCache" where
  "InvalidateAll g =
     foldl (\<lambda>g k. g\<lparr>data := AList.delete k (data g)\<rparr>) g (map fst (data g))"

subsection \<open>The constructor and the shard router\<close>

text \<open>
  A panic is a value. \<open>PanicMsg\<close> is a call of \<open>panic\<close> with a message; the others are
  the run-time panics of an index out of range, of an integer division by zero and of a
  call of a nil function.

  \<open>Cache\<close> is the interface with its two implementations. \<open>shardedCache\<close> embeds the
  options and holds the slice \<open>shards\<close>. Every shard holds its own copy of the options,
  so the calls of a listener are recorded per shard.
\<close>

datatype panic = PanicMsg string | IndexOutOfRange int | DivideByZero | NilFunc

datatype ('k, 'v, 'e) Cache =
  GenericCache "('k, 'v, 'e) genericCache"
  | ShardedCache "('k, 'v, 'e) CacheOptions" "('k, 'v, 'e) Cache list"

text \<open>
  The value built in the first case of the switch of \<open>New\<close>: the options, an empty
  map and fresh counters.
\<close>

definition newGenericCache :: "('k, 'v, 'e) CacheOptions \<Rightarrow> ('k, 'v, 'e) genericCache" where
  "newGenericCache options = CacheOptions.extend options (genericCache.fields [] emptyStats)"

text \<open>
  The loop of \<open>New\<close> calls \<open>New(singleShardOptions)\<close> once per shard; every call
  returns the same value, a fresh cache.
\<close>

function New :: "('k, 'v, 'e) CacheOptions \<Rightarrow> panic + ('k, 'v, 'e) Cache" where
  "New options =
     (if ShardCount options < 0 then Inl (PanicMsg ''shard count must be non-negative'')
      else if ShardCount options = 0 \<or> ShardCount options = 1
      then Inr (GenericCache (newGenericCache options))
      else (case HashCodeFunc options of
              None \<Rightarrow> Inl (PanicMsg ''cannot have a sharded cache without a hashcode function'')
            | Some _ \<Rightarrow>
               (case New (options\<lparr>ShardCount := 1\<rparr>) of
                  Inl p \<Rightarrow> Inl p
                | Inr shard \<Rightarrow>
                    Inr (ShardedCache options (replicate (nat (ShardCount options)) shard)))))"
  by pat_completeness auto
termination
  by (relation "measure (\<lambda>options. if ShardCount options = 1 then 0 else 1)") auto

text \<open>
  The index expression \<open>s.HashCodeFunc(key) % len(s.shards)\<close>. The operator \<open>%\<close> of Go
  truncates towards zero, so its result has the sign of the hash code: it is \<open>smod\<close>.
  The bounds check of the slice access is written where the slice is read.
\<close>

definition shardIndex ::
  "('k, 'v, 'e) CacheOptions \<Rightarrow> ('k, 'v, 'e) Cache list \<Rightarrow> 'k \<Rightarrow> panic + int" where
  "shardIndex s shards k =
     (case HashCodeFunc s of
        None \<Rightarrow> Inl NilFunc
      | Some h \<Rightarrow>
          if length shards = 0 then Inl DivideByZero
          else Inr (h k smod int (length shards)))"

function Cache_Get ::
  "('k, 'v, 'e) Cache \<Rightarrow> 'k \<Rightarrow> time \<Rightarrow> panic + ((('k, 'e) error + 'v) \<times> ('k, 'v, 'e) Cache)" where
  "Cache_Get (GenericCache g) k now = (let (val, g') = Get g k now in Inr (val, GenericCache g'))"
| "Cache_Get (ShardedCache s shards) k now =
     (case shardIndex s shards k of
        Inl p \<Rightarrow> Inl p
      | Inr i \<Rightarrow>
          if 0 \<le> i \<and> i < int (length shards)
          then (case Cache_Get (shards ! nat i) k now of
                  Inl p \<Rightarrow> Inl p
                | Inr (val, shard) \<Rightarrow>
                    Inr (errors_Wrap val [], ShardedCache s (shards[nat i := shard])))
          else Inl (IndexOutOfRange i))"
  by pat_completeness auto
termination
proof (relation "measure (\<lambda>(c, k, now). size c)", goal_cases)
  case 1
  show ?case by simp
next
  case (2 s shards k now i)
  then have "shards ! nat i \<in> set shards"
    by (simp add: nat_less_iff)
  then have "size (shards ! nat i) \<le> size_list size shards"
    by (rule size_list_estimation') simp
  then show ?case by simp
qed

function Cache_Put ::
  "('k, 'v, 'e) Cache \<Rightarrow> 'k \<Rightarrow> 'v \<Rightarrow> time \<Rightarrow> panic + ('k, 'v, 'e) Cache" where
  "Cache_Put (GenericCache g) k v now = Inr (GenericCache (Put g k v now))"
| "Cache_Put (ShardedCache s shards) k v now =
     (case shardIndex s shards k of
        Inl p \<Rightarrow> Inl p
      | Inr i \<Rightarrow>
          if 0 \<le> i \<and> i < int (length shards)
          then (case Cache_Put (shards ! nat i) k v now of
                  Inl p \<Rightarrow> Inl p
                | Inr shard \<Rightarrow> Inr (ShardedCache s (shards[nat i := shard])))
          else Inl (IndexOutOfRange i))"
  by pat_completeness auto
termination
proof (relation "measure (\<lambda>(c, k, v, now). size c)", goal_cases)
  case 1
  show ?case by simp
next
  case (2 s shards k v now i)
  then have "shards ! nat i \<in> set shards"
    by (simp add: nat_less_iff)
  then have "size (shards ! nat i) \<le> size_list size shards"
    by (rule size_list_estimation') simp
  then show ?case by simp
qed

text \<open>
  \<open>Cache_Invalidate1\<close> is the call \<open>Invalidate(k)\<close> with no further keys, the only
  form in which the router calls its shards; \<open>invalidateEach\<close> is the sequence of these
  calls for the first key and then each further key.
\<close>

function Cache_Invalidate1 ::
  "('k, 'v, 'e) Cache \<Rightarrow> 'k \<Rightarrow> panic + ('k, 'v, 'e) Cache" where
  "Cache_Invalidate1 (GenericCache g) k = Inr (GenericCache (Invalidate g k []))"
| "Cache_Invalidate1 (ShardedCache s shards) k =
     (case shardIndex s shards k of
        Inl p \<Rightarrow> Inl p
      | Inr i \<Rightarrow>
          if 0 \<le> i \<and> i < int (length shards)
          then (case Cache_Invalidate1 (shards ! nat i) k of
                  Inl p \<Rightarrow> Inl p
                | Inr shard \<Rightarrow> Inr (ShardedCache s (shards[nat i := shard])))
          else Inl (IndexOutOfRange i))"
  by pat_completeness auto
termination
proof (relation "measure (\<lambda>(c, k). size c)", goal_cases)
  case 1
  show ?case by simp
next
  case (2 s shards k i)
  then have "shards ! nat i \<in> set shards"
    by (simp add: nat_less_iff)
  then have "size (shards ! nat i) \<le> size_list size shards"
    by (rule size_list_estimation') simp
  then show ?case by simp
qed

fun invalidateEach ::
  "('k, 'v, 'e) Cache \<Rightarrow> 'k list \<Rightarrow> panic + ('k, 'v, 'e) Cache" where
  "invalidateEach c [] = Inr c"
| "invalidateEach c (k # ks) =
     (case Cache_Invalidate1 c k of Inl p \<Rightarrow> Inl p | Inr c' \<Rightarrow> invalidateEach c' ks)"

definition Cache_Invalidate ::
  "('k, 'v, 'e) Cache \<Rightarrow> 'k \<Rightarrow> 'k list \<Rightarrow> panic + ('k, 'v, 'e) Cache" where
  "Cache_Invalidate c k ks =
     (case c of
        GenericCache g \<Rightarrow> Inr (GenericCache (Invalidate g k ks))
      | ShardedCache s shards \<Rightarrow> invalidateEach c (k # ks))"

subsection \<open>Auxiliary definitions\<close>


text \<open>
  A cache with one listener and one entry, key \<open>1\<close> with value \<open>10\<close> written at time
  \<open>0\<close>, for the concrete instances below.
\<close>

definition exCache ::
  "duration \<Rightarrow> duration \<Rightarrow> (nat \<Rightarrow> string + nat) option \<Rightarrow> 32 word \<Rightarrow> (nat, nat, string) genericCache" where
  "exCache w r ld m =
     \<lparr>ExpireAfterWrite = w, ExpireAfterRead = r, Load = ld, MaxSize = m,
      RemovalListeners = [[]], ShardCount = 1, HashCodeFunc = None,
      BackgroundEvictFrequency = 0,
      data = [(1, \<lparr>key = 1, value' = 10, lastRead = 0, lastWrite = 0\<rparr>)],
      stats = emptyStats\<rparr>"

text \<open>A loader that fails for the key \<open>2\<close> and returns the key itself otherwise.\<close>

definition exLoader :: "nat \<Rightarrow> string + nat" where
  "exLoader k = (if k = 2 then Inl ''boom'' else Inr k)"


text \<open>Options with integer keys, for the concrete instances of the constructor and the router.\<close>

definition exOptions :: "int \<Rightarrow> (int \<Rightarrow> int) option \<Rightarrow> (int, nat, string) CacheOptions" where
  "exOptions n h =
     \<lparr>ExpireAfterWrite = 0, ExpireAfterRead = 0, Load = None, MaxSize = 0,
      RemovalListeners = [], ShardCount = n, HashCodeFunc = h,
      BackgroundEvictFrequency = 0\<rparr>"







subsection \<open>Facts about the engine\<close>

lemma evict_data: "data (evict g k r) = AList.delete k (data g)"
proof (cases "map_of (data g) k")
  case None
  then have "k \<notin> fst ` set (data g)" by (simp add: map_of_eq_None_iff)
  with None show ?thesis by (simp add: evict_def)
next
  case (Some e)
  then show ?thesis by (simp add: evict_def Let_def)
qed

lemma evict_opts:
  "ExpireAfterWrite (evict g k r) = ExpireAfterWrite g"
  "ExpireAfterRead (evict g k r) = ExpireAfterRead g"
  "Load (evict g k r) = Load g"
  "MaxSize (evict g k r) = MaxSize g"
  "BackgroundEvictFrequency (evict g k r) = BackgroundEvictFrequency g"
  by (auto simp: evict_def Let_def split: option.splits)

lemma evict_absent: "map_of (data g) k = None \<Longrightarrow> evict g k r = g"
  by (simp add: evict_def)

lemma evict_present_stats:
  "map_of (data g) k = Some e \<Longrightarrow> stats (evict g k r) = Eviction (stats g)"
  by (simp add: evict_def Let_def)



lemma isExpired_iff:
  "isExpired g e now \<longleftrightarrow>
     (0 < ExpireAfterRead g \<and> lastRead e + ExpireAfterRead g < now) \<or>
     (0 < ExpireAfterWrite g \<and> lastWrite e + ExpireAfterWrite g < now)"
  by (auto simp: isExpired_def expiresAfterRead_def expiresAfterWrite_def)









lemma Get_hit:
  "map_of (data g) k = Some e \<Longrightarrow> \<not> isExpired g e now \<Longrightarrow>
   Get g k now = (Inr (value' e),
       g\<lparr>data := AList.update k (e\<lparr>lastRead := now\<rparr>) (data g), stats := Hit (stats g)\<rparr>)"
  by (simp add: Get_def Let_def)

lemma load_no_loader:
  "map_of (data g) k = None \<Longrightarrow> Load g = None \<Longrightarrow>
   load g k now = (Inl (Wrap ErrKeyNotFound []), g\<lparr>stats := Miss (stats g)\<rparr>)"
  by (simp add: load_def)

lemma load_loader_error:
  "map_of (data g) k = None \<Longrightarrow> Load g = Some f \<Longrightarrow> f k = Inl err \<Longrightarrow>
   load g k now = (Inl (Wrapf (LoaderError err) ''failed to load key %v'' k),
                   g\<lparr>stats := LoadError (stats g)\<rparr>)"
  by (simp add: load_def)

lemma Get_absent:
  "map_of (data g) k = None \<Longrightarrow>
   Get g k now = (errors_Wrap (fst (load g k now)) [], snd (load g k now))"
  by (simp add: Get_def Let_def split: prod.splits)

lemma Get_expired:
  "map_of (data g) k = Some e \<Longrightarrow> isExpired g e now \<Longrightarrow>
   Get g k now = (errors_Wrap (fst (load (evict g k RemovalReasonExpired) k now)) [],
                  snd (load (evict g k RemovalReasonExpired) k now))"
  by (simp add: Get_def Let_def concurrentEvict_def split: prod.splits)

lemma evict_lookup_self: "map_of (data (evict g k r)) k = None"
  by (simp add: evict_data delete_conv')

lemma exCache_simps:
  "ExpireAfterWrite (exCache w r ld m) = w"
  "ExpireAfterRead (exCache w r ld m) = r"
  "Load (exCache w r ld m) = ld"
  "MaxSize (exCache w r ld m) = m"
  "RemovalListeners (exCache w r ld m) = [[]]"
  "BackgroundEvictFrequency (exCache w r ld m) = 0"
  "data (exCache w r ld m) = [(1, \<lparr>key = 1, value' = 10, lastRead = 0, lastWrite = 0\<rparr>)]"
  "stats (exCache w r ld m) = emptyStats"
  by (simp_all add: exCache_def)

lemma Get_loader_error_absent:
  assumes "Load g = Some f" and "f k = Inl err" and "map_of (data g) k = None"
  shows "Get g k now = (Inl (Wrap (Wrapf (LoaderError err) ''failed to load key %v'' k) []),
                        g\<lparr>stats := LoadError (stats g)\<rparr>)"
  using assms by (simp add: Get_absent load_loader_error errors_Wrap_def)

lemma Get_loader_error_expired:
  assumes "Load g = Some f" and "f k = Inl err"
    and "map_of (data g) k = Some e" and "isExpired g e now"
  shows "Get g k now = (Inl (Wrap (Wrapf (LoaderError err) ''failed to load key %v'' k) []),
                        (evict g k RemovalReasonExpired)
                          \<lparr>stats := LoadError (stats (evict g k RemovalReasonExpired))\<rparr>)"
proof -
  let ?g1 = "evict g k RemovalReasonExpired"
  have "map_of (data ?g1) k = None" by (rule evict_lookup_self)
  moreover have "Load ?g1 = Some f" using assms by (simp add: evict_opts)
  ultimately have "load ?g1 k now =
      (Inl (Wrapf (LoaderError err) ''failed to load key %v'' k),
       ?g1\<lparr>stats := LoadError (stats ?g1)\<rparr>)"
    using assms by (simp add: load_loader_error)
  with assms show ?thesis
    by (simp add: Get_expired errors_Wrap_def)
qed

lemma deleteAll_fields:
  "RemovalListeners (foldl (\<lambda>g k. g\<lparr>data := AList.delete k (data g)\<rparr>) g ks) = RemovalListeners g"
  "stats (foldl (\<lambda>g k. g\<lparr>data := AList.delete k (data g)\<rparr>) g ks) = stats g"
  by (induction ks arbitrary: g) auto

lemma deleteAll_lookup:
  "map_of (data (foldl (\<lambda>g k. g\<lparr>data := AList.delete k (data g)\<rparr>) g ks)) k' =
     (if k' \<in> set ks then None else map_of (data g) k')"
  by (induction ks arbitrary: g) (auto simp: delete_conv')

lemma InvalidateAll_data: "data (InvalidateAll g) = []"
proof -
  have "map_of (data (InvalidateAll g)) k' = None" for k'
    unfolding InvalidateAll_def deleteAll_lookup
    by (simp add: map_of_eq_None_iff)
  then have "map_of (data (InvalidateAll g)) = Map.empty" by (rule ext)
  then show ?thesis by simp
qed





















subsection \<open>Facts about the constructor and the router\<close>

lemma New_single: "ShardCount options = 1 \<Longrightarrow> New options = Inr (GenericCache (newGenericCache options))"
  by simp

text \<open>
  For a hash code that is not negative the router selects the shard \<open>hash mod N\<close>; for a
  negative hash code that \<open>N\<close> does not divide, the index is negative and the access
  panics.
\<close>

lemma shardIndex_nonneg:
  assumes "HashCodeFunc s = Some h" and "shards \<noteq> []" and "0 \<le> h k"
  shows "shardIndex s shards k = Inr (h k mod int (length shards))"
    and "0 \<le> h k mod int (length shards)"
    and "h k mod int (length shards) < int (length shards)"
  using assms by (auto simp: shardIndex_def signed_modulo_int_def sgn_if)

lemma shardIndex_negative:
  assumes "HashCodeFunc s = Some h" and "shards \<noteq> []" and "h k < 0"
    and "\<not> int (length shards) dvd h k"
  shows "shardIndex s shards k = Inr (h k smod int (length shards))"
    and "h k smod int (length shards) < 0"
proof -
  show "shardIndex s shards k = Inr (h k smod int (length shards))"
    using assms by (simp add: shardIndex_def)
  have "\<bar>h k\<bar> mod int (length shards) \<noteq> 0"
    using assms(4) by (simp add: dvd_eq_mod_eq_0 [symmetric])
  moreover have "0 \<le> \<bar>h k\<bar> mod int (length shards)"
    using assms(2) by simp
  ultimately have "0 < \<bar>h k\<bar> mod int (length shards)" by linarith
  then show "h k smod int (length shards) < 0"
    using assms(3) by (simp add: signed_modulo_int_def sgn_if)
qed

lemma sharded_routes_nonneg:
  assumes "HashCodeFunc s = Some h" and "shards \<noteq> []" and "0 \<le> h k"
  shows "Cache_Get (ShardedCache s shards) k now =
           (case Cache_Get (shards ! nat (h k mod int (length shards))) k now of
              Inl p \<Rightarrow> Inl p
            | Inr (val, shard) \<Rightarrow>
                Inr (errors_Wrap val [],
                     ShardedCache s (shards[nat (h k mod int (length shards)) := shard])))"
    and "Cache_Put (ShardedCache s shards) k v now =
           (case Cache_Put (shards ! nat (h k mod int (length shards))) k v now of
              Inl p \<Rightarrow> Inl p
            | Inr shard \<Rightarrow>
                Inr (ShardedCache s (shards[nat (h k mod int (length shards)) := shard])))"
    and "Cache_Invalidate1 (ShardedCache s shards) k =
           (case Cache_Invalidate1 (shards ! nat (h k mod int (length shards))) k of
              Inl p \<Rightarrow> Inl p
            | Inr shard \<Rightarrow>
                Inr (ShardedCache s (shards[nat (h k mod int (length shards)) := shard])))"
  using shardIndex_nonneg [OF assms] by simp_all

lemma sharded_panics_negative:
  assumes "HashCodeFunc s = Some h" and "shards \<noteq> []" and "h k < 0"
    and "\<not> int (length shards) dvd h k"
  shows "Cache_Get (ShardedCache s shards) k now =
           Inl (IndexOutOfRange (h k smod int (length shards)))"
    and "Cache_Put (ShardedCache s shards) k v now =
           Inl (IndexOutOfRange (h k smod int (length shards)))"
    and "Cache_Invalidate1 (ShardedCache s shards) k =
           Inl (IndexOutOfRange (h k smod int (length shards)))"
  using shardIndex_negative [OF assms] by simp_all

lemma Cache_Invalidate_single: "Cache_Invalidate c k [] = Cache_Invalidate1 c k"
  by (cases c) (auto simp: Cache_Invalidate_def split: sum.splits)

section \<open>The claims\<close>



text \<open>
  Claim C2. For a key with no entry and no loader configured, \<open>Get\<close> fails with an error
  whose cause is \<open>ErrKeyNotFound\<close>, records one miss and leaves the map and the listeners
  as they were.
\<close>

theorem get_absent_no_loader:
  assumes "map_of (data g) k = None" and "Load g = None"
  shows "Get g k now = (Inl (Wrap (Wrap ErrKeyNotFound []) []), g\<lparr>stats := Miss (stats g)\<rparr>)
     \<and> Cause (Wrap (Wrap ErrKeyNotFound []) [] :: ('k, 'e) error) = ErrKeyNotFound
     \<and> misses (stats (snd (Get g k now))) = misses (stats g) + 1
     \<and> data (snd (Get g k now)) = data g
     \<and> RemovalListeners (snd (Get g k now)) = RemovalListeners g"
  using assms by (simp add: Get_absent load_no_loader errors_Wrap_def Miss_def)

theorem get_absent_no_loader_witness:
  "map_of (data (exCache 0 0 None 0)) 2 = None \<and> Load (exCache 0 0 None 0) = None
   \<and> fst (Get (exCache 0 0 None 0) 2 5) = Inl (Wrap (Wrap ErrKeyNotFound []) [])
   \<and> misses (stats (snd (Get (exCache 0 0 None 0) 2 5))) = 1
   \<and> data (snd (Get (exCache 0 0 None 0) 2 5)) = data (exCache 0 0 None 0)"
proof -
  have h1: "map_of (data (exCache 0 0 None 0)) 2 = None" by (simp add: exCache_def)
  have h2: "Load (exCache 0 0 None 0) = None" by (simp add: exCache_def)
  have h3: "misses (stats (exCache 0 0 None 0)) = 0" by (simp add: exCache_def emptyStats_def)
  from get_absent_no_loader [OF h1 h2, of 5] h1 h2 h3 show ?thesis by (simp add: Miss_def)
qed









text \<open>
  Claim C6. When \<open>Get\<close> reaches the loader (the key has no entry, or its entry is
  expired) and the loader returns an error for the key, \<open>Get\<close> returns an error that
  wraps the loader's error together with the key, one load error and no load success is
  counted, and nothing is inserted: the map is the one before the call without the
  expired entry of the key, and it is unchanged when the key had no entry.
\<close>

theorem get_loader_error:
  assumes "Load g = Some f" and "f k = Inl err"
    and "map_of (data g) k = None \<or> (\<exists>e. map_of (data g) k = Some e \<and> isExpired g e now)"
  shows "fst (Get g k now) = Inl (Wrap (Wrapf (LoaderError err) ''failed to load key %v'' k) [])
     \<and> Cause (Wrap (Wrapf (LoaderError err) ''failed to load key %v'' k) []) = LoaderError err
     \<and> loadErrors (stats (snd (Get g k now))) = loadErrors (stats g) + 1
     \<and> loadSuccesses (stats (snd (Get g k now))) = loadSuccesses (stats g)
     \<and> data (snd (Get g k now)) = AList.delete k (data g)
     \<and> map_of (data (snd (Get g k now))) k = None
     \<and> (map_of (data g) k = None \<longrightarrow>
           load g k now = (Inl (Wrapf (LoaderError err) ''failed to load key %v'' k),
                           g\<lparr>stats := LoadError (stats g)\<rparr>)
           \<and> data (snd (Get g k now)) = data g)"
  using assms(3)
proof
  assume absent: "map_of (data g) k = None"
  then have "k \<notin> fst ` set (data g)" by (simp add: map_of_eq_None_iff)
  then have "AList.delete k (data g) = data g" by simp
  with absent Get_loader_error_absent [OF assms(1,2) absent, of now]
    load_loader_error [OF absent assms(1,2), of now]
  show ?thesis by (simp add: LoadError_def)
next
  assume "\<exists>e. map_of (data g) k = Some e \<and> isExpired g e now"
  then obtain e where e: "map_of (data g) k = Some e" "isExpired g e now" by blast
  from Get_loader_error_expired [OF assms(1,2) e] e(1)
  show ?thesis
    by (simp add: LoadError_def Eviction_def evict_data evict_present_stats delete_conv')
qed

theorem get_loader_error_witness:
  "fst (Get (exCache 5 0 (Some exLoader) 0) 2 3) =
     Inl (Wrap (Wrapf (LoaderError ''boom'') ''failed to load key %v'' 2) [])
   \<and> loadErrors (stats (snd (Get (exCache 5 0 (Some exLoader) 0) 2 3))) = 1
   \<and> data (snd (Get (exCache 5 0 (Some exLoader) 0) 2 3)) =
       data (exCache 5 0 (Some exLoader) 0)"
proof -
  let ?G = "exCache 5 0 (Some exLoader) 0"
  have h1: "Load ?G = Some exLoader" by (simp add: exCache_simps)
  have h2: "exLoader 2 = Inl ''boom''" by (simp add: exLoader_def)
  have h3: "map_of (data ?G) 2 = None" by (simp add: exCache_simps)
  have h4: "loadErrors (stats ?G) = 0" by (simp add: exCache_simps emptyStats_def)
  have h5: "AList.delete 2 (data ?G) = data ?G" by (simp add: exCache_simps)
  from get_loader_error [OF h1 h2 disjI1, OF h3, of 3] h3 h4 h5 show ?thesis by simp
qed

text \<open>
  Claim C7. \<open>Invalidate\<close> removes each of the given keys that is present, does nothing
  for an absent key and leaves the entry of every other key as it was; it calls no
  listener and counts no eviction. \<open>InvalidateAll\<close> empties the map, equally without
  a notification or a counted eviction.
\<close>

theorem invalidate_silent:
  "map_of (data (Invalidate g k ks)) k' =
      (if k' \<in> set (k # ks) then None else map_of (data g) k')
   \<and> RemovalListeners (Invalidate g k ks) = RemovalListeners g
   \<and> stats (Invalidate g k ks) = stats g
   \<and> data (InvalidateAll g) = []
   \<and> RemovalListeners (InvalidateAll g) = RemovalListeners g
   \<and> stats (InvalidateAll g) = stats g"
  by (simp add: Invalidate_def deleteAll_fields deleteAll_lookup delete_conv' InvalidateAll_data)
     (simp add: InvalidateAll_def deleteAll_fields)

text \<open>
  Claim C8, at an input where the code departs from it. A router with two shards and the
  identity as hash code of integer keys is built by \<open>New\<close>. For the key \<open>-1\<close> the index
  \<open>-1 % 2\<close> is \<open>-1\<close> in Go, and \<open>Get\<close>, \<open>Put\<close> and \<open>Invalidate\<close> (also for a further
  key of the call) panic with an index out of range instead of selecting shard
  \<open>-1 mod 2 = 1\<close>.
\<close>

theorem sharded_negative_hash_panics:
  "New (exOptions 2 (Some (\<lambda>k. k))) =
       Inr (ShardedCache (exOptions 2 (Some (\<lambda>k. k)))
         [GenericCache (newGenericCache (exOptions 1 (Some (\<lambda>k. k)))),
          GenericCache (newGenericCache (exOptions 1 (Some (\<lambda>k. k))))])
   \<and> Cache_Get (ShardedCache (exOptions 2 (Some (\<lambda>k. k)))
         [GenericCache (newGenericCache (exOptions 1 (Some (\<lambda>k. k)))),
          GenericCache (newGenericCache (exOptions 1 (Some (\<lambda>k. k))))]) (- 1) now
       = Inl (IndexOutOfRange (- 1))
   \<and> Cache_Put (ShardedCache (exOptions 2 (Some (\<lambda>k. k)))
         [GenericCache (newGenericCache (exOptions 1 (Some (\<lambda>k. k)))),
          GenericCache (newGenericCache (exOptions 1 (Some (\<lambda>k. k))))]) (- 1) v now
       = Inl (IndexOutOfRange (- 1))
   \<and> Cache_Invalidate (ShardedCache (exOptions 2 (Some (\<lambda>k. k)))
         [GenericCache (newGenericCache (exOptions 1 (Some (\<lambda>k. k)))),
          GenericCache (newGenericCache (exOptions 1 (Some (\<lambda>k. k))))]) 0 [- 1]
       = Inl (IndexOutOfRange (- 1))"
proof -
  have "exOptions 2 (Some (\<lambda>k. k))\<lparr>ShardCount := 1\<rparr> = exOptions 1 (Some (\<lambda>k. k))"
    by (simp add: exOptions_def)
  moreover have "ShardCount (exOptions n h) = n" "HashCodeFunc (exOptions n h) = h" for n h
    by (simp_all add: exOptions_def)
  moreover have "(- 1 :: int) smod 2 = - 1" "(0 :: int) smod 2 = 0"
    by (simp_all add: signed_modulo_int_def)
  ultimately show ?thesis
    by (simp add: numeral_2_eq_2 shardIndex_def Cache_Invalidate_def)
qed

text \<open>
  Claim C9. \<open>New\<close> panics exactly when the shard count is negative or when it is
  greater than 1 and no hash-code function is given; the panic is the result of the
  constructor itself. With every other combination of options it returns a cache: the
  single engine for a shard count of 0 or 1, the router over that many fresh engines
  otherwise.
\<close>

theorem New_fails_iff:
  "New options =
     (if ShardCount options < 0 then Inl (PanicMsg ''shard count must be non-negative'')
      else if ShardCount options \<le> 1 then Inr (GenericCache (newGenericCache options))
      else if HashCodeFunc options = None
      then Inl (PanicMsg ''cannot have a sharded cache without a hashcode function'')
      else Inr (ShardedCache options
             (replicate (nat (ShardCount options))
                (GenericCache (newGenericCache (options\<lparr>ShardCount := 1\<rparr>))))))
   \<and> ((\<exists>p. New options = Inl p) \<longleftrightarrow>
          ShardCount options < 0 \<or> (1 < ShardCount options \<and> HashCodeFunc options = None))"
proof -
  have single: "New (options\<lparr>ShardCount := 1\<rparr>) =
      Inr (GenericCache (newGenericCache (options\<lparr>ShardCount := 1\<rparr>)))"
    by (rule New_single) simp
  have eq: "New options =
     (if ShardCount options < 0 then Inl (PanicMsg ''shard count must be non-negative'')
      else if ShardCount options \<le> 1 then Inr (GenericCache (newGenericCache options))
      else if HashCodeFunc options = None
      then Inl (PanicMsg ''cannot have a sharded cache without a hashcode function'')
      else Inr (ShardedCache options
             (replicate (nat (ShardCount options))
                (GenericCache (newGenericCache (options\<lparr>ShardCount := 1\<rparr>))))))"
    by (subst New.simps) (auto simp: single split: option.splits)
  have "(\<exists>p. New options = Inl p) \<longleftrightarrow>
          ShardCount options < 0 \<or> (1 < ShardCount options \<and> HashCodeFunc options = None)"
    unfolding eq by auto
  with eq show ?thesis by (rule conjI)
qed

theorem New_fails_iff_witness:
  "New (exOptions (- 1) None) = Inl (PanicMsg ''shard count must be non-negative'')
   \<and> New (exOptions 2 None) =
       Inl (PanicMsg ''cannot have a sharded cache without a hashcode function'')
   \<and> New (exOptions 2 (Some (\<lambda>k. k))) =
       Inr (ShardedCache (exOptions 2 (Some (\<lambda>k. k)))
         [GenericCache (newGenericCache (exOptions 1 (Some (\<lambda>k. k)))),
          GenericCache (newGenericCache (exOptions 1 (Some (\<lambda>k. k))))])"
proof -
  have "exOptions 2 (Some (\<lambda>k. k))\<lparr>ShardCount := 1\<rparr> = exOptions 1 (Some (\<lambda>k. k))"
    by (simp add: exOptions_def)
  moreover have "nat 2 = Suc (Suc 0)" by simp
  moreover have "ShardCount (exOptions n h) = n" "HashCodeFunc (exOptions n h) = h" for n h
    by (simp_all add: exOptions_def)
  ultimately show ?thesis
    using New_fails_iff [of "exOptions (- 1) None"] New_fails_iff [of "exOptions 2 None"]
      New_fails_iff [of "exOptions 2 (Some (\<lambda>k. k))"]
    by (simp add: numeral_2_eq_2 del: New.simps)
qed

text \<open>
  Claim C10. Expiry is strict. An entry is expired exactly when the clock is strictly
  after its last read plus \<open>ExpireAfterRead\<close> (if that is positive) or strictly after its
  last write plus \<open>ExpireAfterWrite\<close> (if that is positive). At exactly the last write
  plus \<open>ExpireAfterWrite\<close>, a \<open>Get\<close> is a hit that returns the value, unless the read
  rule has expired the entry by then; and likewise at exactly the last read plus
  \<open>ExpireAfterRead\<close>.
\<close>

theorem expiry_is_strict:
  assumes "map_of (data g) k = Some e"
  shows "(isExpired g e now \<longleftrightarrow>
            (0 < ExpireAfterRead g \<and> lastRead e + ExpireAfterRead g < now) \<or>
            (0 < ExpireAfterWrite g \<and> lastWrite e + ExpireAfterWrite g < now))
     \<and> (0 < ExpireAfterWrite g \<and>
          \<not> (0 < ExpireAfterRead g \<and>
               lastRead e + ExpireAfterRead g < lastWrite e + ExpireAfterWrite g) \<longrightarrow>
          Get g k (lastWrite e + ExpireAfterWrite g) =
            (Inr (value' e),
             g\<lparr>data := AList.update k (e\<lparr>lastRead := lastWrite e + ExpireAfterWrite g\<rparr>) (data g),
               stats := Hit (stats g)\<rparr>))
     \<and> (0 < ExpireAfterRead g \<and>
          \<not> (0 < ExpireAfterWrite g \<and>
               lastWrite e + ExpireAfterWrite g < lastRead e + ExpireAfterRead g) \<longrightarrow>
          Get g k (lastRead e + ExpireAfterRead g) =
            (Inr (value' e),
             g\<lparr>data := AList.update k (e\<lparr>lastRead := lastRead e + ExpireAfterRead g\<rparr>) (data g),
               stats := Hit (stats g)\<rparr>))"
proof -
  have w: "\<not> isExpired g e (lastWrite e + ExpireAfterWrite g)"
    if "\<not> (0 < ExpireAfterRead g \<and>
             lastRead e + ExpireAfterRead g < lastWrite e + ExpireAfterWrite g)"
    using that by (simp add: isExpired_iff)
  have r: "\<not> isExpired g e (lastRead e + ExpireAfterRead g)"
    if "\<not> (0 < ExpireAfterWrite g \<and>
             lastWrite e + ExpireAfterWrite g < lastRead e + ExpireAfterRead g)"
    using that by (simp add: isExpired_iff)
  show ?thesis
    using assms w r by (simp add: isExpired_iff Get_hit)
qed

theorem expiry_is_strict_witness:
  "\<not> isExpired (exCache 5 0 None 0) \<lparr>key = 1, value' = 10, lastRead = 0, lastWrite = 0\<rparr> 5
   \<and> isExpired (exCache 5 0 None 0) \<lparr>key = 1, value' = 10, lastRead = 0, lastWrite = 0\<rparr> 6
   \<and> fst (Get (exCache 5 0 None 0) 1 5) = Inr 10
   \<and> fst (Get (exCache 0 7 None 0) 1 7) = Inr 10"
proof -
  let ?e = "\<lparr>key = 1::nat, value' = 10::nat, lastRead = 0, lastWrite = 0\<rparr>"
  have h: "map_of (data (exCache w r None 0)) 1 = Some ?e" for w r
    by (simp add: exCache_simps)
  from expiry_is_strict [OF h, of 5 0 5] expiry_is_strict [OF h, of 5 0 6]
    expiry_is_strict [OF h, of 0 7 7]
  show ?thesis by (simp add: exCache_simps)
qed

end
